theory Spec2Isabelle
  imports Complex_Main "HOL-Library.Multiset" "HOL-Library.Product_Lexorder"
begin

section \<open>TNest_GUI: the residual simulator and the configuration builders\<close>

text \<open>
  A shallow embedding of \<^verbatim>\<open>src/ResSim/TempoNest_SIM.py\<close> (the residual simulator),
  \<^verbatim>\<open>src/JSON/TempoNest_JSON.py\<close> and \<^verbatim>\<open>src/TempoNest_JSON.py\<close> (the two configuration
  builders). Python floats are modelled as \<^typ>\<open>real\<close> (finite values, exact arithmetic),
  every exception the code can raise is a value of \<open>error\<close>, and the external pulsar
  library (libstempo's \<^verbatim>\<open>toasim\<close>) is a parameter of the model.
\<close>

subsection \<open>Errors\<close>

datatype error =
  ZeroDivisionError
  | ValueError
  | KeyError
  | FileNotFoundError
  | LibraryError

subsection \<open>The time-of-arrival series (a pandas DataFrame with four float columns)\<close>

record row =
  Date :: real
  Residual :: real
  Uncertainty :: real
  Frequency :: real

type_synonym dataframe = "row list"

text \<open>
  \<^verbatim>\<open>pd.DataFrame({'Date': a, 'Residual': b, 'Uncertainty': c, 'Frequency': d})\<close>:
  the four arrays must have one length, otherwise pandas raises ValueError.
\<close>

definition DataFrame :: "real list \<Rightarrow> real list \<Rightarrow> real list \<Rightarrow> real list \<Rightarrow> error + dataframe" where
  "DataFrame ds rs us fs =
     (if length rs = length ds \<and> length us = length ds \<and> length fs = length ds
      then Inr (map (\<lambda>i. \<lparr>Date = ds ! i, Residual = rs ! i, Uncertainty = us ! i, Frequency = fs ! i\<rparr>)
                    [0..<length ds])
      else Inl ValueError)"

text \<open>
  \<^verbatim>\<open>df['Residual'] = values\<close> and \<^verbatim>\<open>df['Uncertainty'] = values\<close> with an array:
  the array must be as long as the frame, otherwise pandas raises ValueError.
\<close>

definition set_Residual :: "dataframe \<Rightarrow> real list \<Rightarrow> error + dataframe" where
  "set_Residual df vs =
     (if length vs = length df
      then Inr (map (\<lambda>i. (df ! i)\<lparr>Residual := vs ! i\<rparr>) [0..<length df])
      else Inl ValueError)"

definition set_Uncertainty :: "dataframe \<Rightarrow> real list \<Rightarrow> error + dataframe" where
  "set_Uncertainty df vs =
     (if length vs = length df
      then Inr (map (\<lambda>i. (df ! i)\<lparr>Uncertainty := vs ! i\<rparr>) [0..<length df])
      else Inl ValueError)"

subsection \<open>combine_residuals\<close>

text \<open>
  \<^verbatim>\<open>df[c] = df[c].astype(np.float64)\<close> for the four columns: the values are floats
  already, the coercion keeps every row.
\<close>

definition astype_float64 :: "dataframe \<Rightarrow> dataframe" where
  "astype_float64 df =
     map (\<lambda>r. \<lparr>Date = Date r, Residual = Residual r, Uncertainty = Uncertainty r,
                Frequency = Frequency r\<rparr>) df"

text \<open>
  \<^verbatim>\<open>pd.concat(data_list, ignore_index=True)\<close>: the frames one after the other;
  pandas raises ValueError ("No objects to concatenate") on an empty list.
\<close>

definition pd_concat :: "dataframe list \<Rightarrow> error + dataframe" where
  "pd_concat data_list = (if data_list = [] then Inl ValueError else Inr (concat data_list))"

text \<open>
  \<^verbatim>\<open>sort_values(by=['Date', 'Frequency']).reset_index(drop=True)\<close>: a stable sort on
  the pair (Date, Frequency), compared lexicographically.
\<close>

definition sort_values :: "dataframe \<Rightarrow> dataframe" where
  "sort_values df = sort_key (\<lambda>r. (Date r, Frequency r)) df"

definition combine_residuals :: "dataframe list \<Rightarrow> error + dataframe" where
  "combine_residuals data_list =
     (case pd_concat (map astype_float64 data_list) of
        Inl e \<Rightarrow> Inl e
      | Inr combined_data \<Rightarrow> Inr (sort_values combined_data))"

text \<open>The order of the output: by epoch, ties by frequency.\<close>

definition row_le :: "row \<Rightarrow> row \<Rightarrow> bool" where
  "row_le r s = (Date r < Date s \<or> (Date r = Date s \<and> Frequency r \<le> Frequency s))"

subsection \<open>The external pulsar library\<close>

text \<open>
  libstempo's \<^verbatim>\<open>toasim\<close> module is not part of the repository. The model takes it as
  a parameter: \<open>'p\<close> is the library's pulsar object, \<open>fakepulsar\<close> builds one from a
  parameter file, observation epochs, uncertainties and frequencies (it may fail: the
  library's errors are not caught by the simulator), \<open>toas\<close>, \<open>residuals\<close>, \<open>toaerrs\<close> and
  \<open>freqs\<close> read the object, and the three noise routines change the object in place,
  which the model writes as returning the changed object.
\<close>

record 'p toasim =
  fakepulsar :: "string \<Rightarrow> real list \<Rightarrow> real list \<Rightarrow> real list \<Rightarrow> error + 'p"
  toas :: "'p \<Rightarrow> real list"
  residuals :: "'p \<Rightarrow> real list"
  toaerrs :: "'p \<Rightarrow> real list"
  freqs :: "'p \<Rightarrow> real list"
  add_rednoise :: "'p \<Rightarrow> real \<Rightarrow> real \<Rightarrow> error + 'p"
  add_dm :: "'p \<Rightarrow> real \<Rightarrow> real \<Rightarrow> error + 'p"
  add_efac :: "'p \<Rightarrow> real \<Rightarrow> error + 'p"

text \<open>
  What the simulator relies on when it reads a synthetic pulsar back: one time of
  arrival and one residual per observation epoch, the uncertainties and the
  frequencies as they were supplied.
\<close>

definition faithful_generator :: "'p toasim \<Rightarrow> bool" where
  "faithful_generator L =
     (\<forall>parfile obstimes toaerr freq psr.
        fakepulsar L parfile obstimes toaerr freq = Inr psr \<longrightarrow>
          length (toas L psr) = length obstimes \<and>
          length (residuals L psr) = length obstimes \<and>
          toaerrs L psr = toaerr \<and>
          freqs L psr = freq)"

subsection \<open>numpy\<close>

text \<open>Python's \<^verbatim>\<open>int(x)\<close> on a float: truncation towards zero.\<close>

definition py_int :: "real \<Rightarrow> int" where
  "py_int x = (if 0 \<le> x then \<lfloor>x\<rfloor> else \<lceil>x\<rceil>)"

text \<open>
  \<^verbatim>\<open>np.linspace(start, stop, num)\<close>: \<open>num\<close> evenly spaced samples, both endpoints
  included; a negative \<open>num\<close> raises ValueError.
\<close>

definition linspace :: "real \<Rightarrow> real \<Rightarrow> int \<Rightarrow> error + real list" where
  "linspace start stop num =
     (if num < 0 then Inl ValueError
      else if num = 1 then Inr [start]
      else Inr (map (\<lambda>i. start + real i * ((stop - start) / real (nat num - 1))) [0..<nat num]))"

text \<open>\<^verbatim>\<open>np.full(n, v)\<close>.\<close>

definition full :: "int \<Rightarrow> real \<Rightarrow> real list" where
  "full n v = replicate (nat n) v"

text \<open>
  The global random generator is a stream of standard normal deviates;
  \<^verbatim>\<open>np.random.normal(loc, scale, size)\<close> takes the next \<open>size\<close> of them
  (the size is never negative where the simulator calls it: \<open>linspace\<close> has raised before).
\<close>

type_synonym rng = "nat \<Rightarrow> real"

definition random_normal :: "real \<Rightarrow> real \<Rightarrow> int \<Rightarrow> rng \<Rightarrow> real list \<times> rng" where
  "random_normal loc scale n g =
     (map (\<lambda>i. loc + scale * g i) [0..<nat n], (\<lambda>i. g (i + nat n)))"

text \<open>\<^verbatim>\<open>np.clip(a, a_min=m, a_max=None)\<close>.\<close>

definition clip_min :: "real list \<Rightarrow> real \<Rightarrow> real list" where
  "clip_min a m = map (\<lambda>x. max x m) a"

subsection \<open>simulate_residuals_freq\<close>

definition start_mjd :: real where
  "start_mjd = 56658"

definition end_mjd :: "real \<Rightarrow> real" where
  "end_mjd totaltime = start_mjd + 365.25 * totaltime"

text \<open>The uncertainties handed to the library: the reciprocals of the clipped draws.\<close>

definition sn_ratios :: "real \<Rightarrow> int \<Rightarrow> rng \<Rightarrow> real list" where
  "sn_ratios avg_sn n_toas g = clip_min (fst (random_normal avg_sn 5.0 n_toas g)) (1 / 1000)"

definition toa_errors :: "real \<Rightarrow> int \<Rightarrow> rng \<Rightarrow> real list" where
  "toa_errors avg_sn n_toas g = map (\<lambda>s. 1.0 / s) (sn_ratios avg_sn n_toas g)"

definition simulate_residuals_freq ::
  "'p toasim \<Rightarrow> rng \<Rightarrow> real \<Rightarrow> real \<Rightarrow> real \<Rightarrow> real \<Rightarrow> error + (dataframe \<times> rng)" where
  "simulate_residuals_freq L g X_days freq totaltime avg_sn =
     (if X_days = 0 then Inl ZeroDivisionError
      else
        let n_toas = py_int ((end_mjd totaltime - start_mjd) / X_days) in
        case linspace start_mjd (end_mjd totaltime) n_toas of
          Inl e \<Rightarrow> Inl e
        | Inr mjds \<Rightarrow>
            (case fakepulsar L ''fake.par'' mjds (toa_errors avg_sn n_toas g) (full n_toas freq) of
               Inl e \<Rightarrow> Inl e
             | Inr psr \<Rightarrow>
                 (case DataFrame (toas L psr) (map (\<lambda>x. x / (1 / 1000000)) (residuals L psr))
                         (toaerrs L psr) (freqs L psr) of
                    Inl e \<Rightarrow> Inl e
                  | Inr data \<Rightarrow> Inr (data, snd (random_normal avg_sn 5.0 n_toas g)))))"

subsection \<open>inject_dm_noise_on_combined\<close>

definition inject_dm_noise_on_combined ::
  "'p toasim \<Rightarrow> 'p \<Rightarrow> real \<times> real \<Rightarrow> real \<times> real \<Rightarrow> real \<Rightarrow> error + (real list \<times> real list \<times> 'p)" where
  "inject_dm_noise_on_combined L psr_combined dm_noise_params red_noise_params efac_value =
     (case add_rednoise L psr_combined (fst red_noise_params) (snd red_noise_params) of
        Inl e \<Rightarrow> Inl e
      | Inr psr1 \<Rightarrow>
          (case add_dm L psr1 (fst dm_noise_params) (snd dm_noise_params) of
             Inl e \<Rightarrow> Inl e
           | Inr psr2 \<Rightarrow>
               (case add_efac L psr2 efac_value of
                  Inl e \<Rightarrow> Inl e
                | Inr psr3 \<Rightarrow> Inr (residuals L psr3, toaerrs L psr3, psr3))))"

subsection \<open>simulate_residuals\<close>

text \<open>The simulator object: the most recent combined pulsar, None before the first run.\<close>

record 'p simulator =
  psr_combined :: "'p option"

definition init :: "'p simulator" where
  "init = \<lparr>psr_combined = None\<rparr>"

text \<open>The loop over the observing frequencies; each pass draws from the generator.\<close>

fun simulate_all ::
  "'p toasim \<Rightarrow> rng \<Rightarrow> real \<Rightarrow> real list \<Rightarrow> real \<Rightarrow> real \<Rightarrow> error + (dataframe list \<times> rng)" where
  "simulate_all L g cadence_days [] totaltime avg_sn = Inr ([], g)"
| "simulate_all L g cadence_days (freq # observing_freqs) totaltime avg_sn =
     (case simulate_residuals_freq L g cadence_days freq totaltime avg_sn of
        Inl e \<Rightarrow> Inl e
      | Inr (freq_data, g') \<Rightarrow>
          (case simulate_all L g' cadence_days observing_freqs totaltime avg_sn of
             Inl e \<Rightarrow> Inl e
           | Inr (all_data, g'') \<Rightarrow> Inr (freq_data # all_data, g'')))"

text \<open>
  \<open>avg_sn\<close> is a module-level variable of the script (the slider's value), read by the
  method; it is a parameter here. The result is the simulator with its new pulsar
  object (noise injected in place) and the combined series; an error aborts the run.
\<close>

definition simulate_residuals ::
  "'p toasim \<Rightarrow> rng \<Rightarrow> real \<Rightarrow> 'p simulator \<Rightarrow> real \<Rightarrow> real list \<Rightarrow> real \<times> real \<Rightarrow> real \<times> real
     \<Rightarrow> real \<Rightarrow> real \<Rightarrow> error + ('p simulator \<times> dataframe)" where
  "simulate_residuals L g avg_sn self cadence_days observing_freqs red_noise_params dm_noise_params
       totaltime efac_value =
     (case simulate_all L g cadence_days observing_freqs totaltime avg_sn of
        Inl e \<Rightarrow> Inl e
      | Inr (all_data, g') \<Rightarrow>
          (case combine_residuals all_data of
             Inl e \<Rightarrow> Inl e
           | Inr combined_data \<Rightarrow>
               (case fakepulsar L ''fake.par'' (map Date combined_data)
                       (map Uncertainty combined_data) (map Frequency combined_data) of
                  Inl e \<Rightarrow> Inl e
                | Inr psr \<Rightarrow>
                    (case inject_dm_noise_on_combined L psr dm_noise_params red_noise_params
                            efac_value of
                       Inl e \<Rightarrow> Inl e
                     | Inr (combined_residuals, combined_toaerrs, psr') \<Rightarrow>
                         (case set_Residual combined_data
                                 (map (\<lambda>x. x / (1 / 1000000)) combined_residuals) of
                            Inl e \<Rightarrow> Inl e
                          | Inr data1 \<Rightarrow>
                              (case set_Uncertainty data1 combined_toaerrs of
                                 Inl e \<Rightarrow> Inl e
                               | Inr data2 \<Rightarrow>
                                   Inr (self\<lparr>psr_combined := Some psr'\<rparr>, data2)))))))"

subsection \<open>A library instance for evaluation\<close>

text \<open>
  An instance of the library interface on which the simulator can be run: its pulsar
  object stores the arrays it was built from and the noise calls made on it, in the
  order they were made; its residuals are all zero.
\<close>

datatype noise_call = RedNoise real real | DMNoise real real | Efac real

record recorded_pulsar =
  stored_toas :: "real list"
  stored_toaerrs :: "real list"
  stored_freqs :: "real list"
  calls :: "noise_call list"

definition recording_toasim :: "recorded_pulsar toasim" where
  "recording_toasim =
     \<lparr>fakepulsar = (\<lambda>parfile obstimes toaerr freq.
        Inr \<lparr>stored_toas = obstimes, stored_toaerrs = toaerr, stored_freqs = freq, calls = []\<rparr>),
      toas = stored_toas,
      residuals = (\<lambda>psr. replicate (length (stored_toas psr)) 0),
      toaerrs = stored_toaerrs,
      freqs = stored_freqs,
      add_rednoise = (\<lambda>psr A gam. Inr (psr\<lparr>calls := calls psr @ [RedNoise A gam]\<rparr>)),
      add_dm = (\<lambda>psr A gam. Inr (psr\<lparr>calls := calls psr @ [DMNoise A gam]\<rparr>)),
      add_efac = (\<lambda>psr efac. Inr (psr\<lparr>calls := calls psr @ [Efac efac]\<rparr>))\<rparr>"

subsection \<open>Streamlit form state\<close>

text \<open>
  The configuration builders read their inputs from widgets. A widget returns the value
  the user has set for its key, or its default. The form state holds the values set by
  the user: choices (select boxes and radio buttons), numbers, check boxes and text
  fields, each by widget key.
\<close>

record form =
  choices :: "string \<Rightarrow> string option"
  numbers :: "string \<Rightarrow> real option"
  checks :: "string \<Rightarrow> bool option"
  texts :: "string \<Rightarrow> string option"

definition empty_form :: form where
  "empty_form = \<lparr>choices = Map.empty, numbers = Map.empty, checks = Map.empty, texts = Map.empty\<rparr>"

text \<open>A select box returns one of its options; the first one unless the user chose another.\<close>

definition selectbox :: "form \<Rightarrow> string \<Rightarrow> string list \<Rightarrow> string" where
  "selectbox st key options =
     (case choices st key of
        None \<Rightarrow> hd options
      | Some v \<Rightarrow> if v \<in> set options then v else hd options)"

definition radio :: "form \<Rightarrow> string \<Rightarrow> string list \<Rightarrow> string" where
  "radio st key options =
     (case choices st key of
        None \<Rightarrow> hd options
      | Some v \<Rightarrow> if v \<in> set options then v else hd options)"

definition number_input :: "form \<Rightarrow> string \<Rightarrow> real \<Rightarrow> real" where
  "number_input st key value = (case numbers st key of None \<Rightarrow> value | Some v \<Rightarrow> v)"

definition checkbox :: "form \<Rightarrow> string \<Rightarrow> bool \<Rightarrow> bool" where
  "checkbox st key value = (case checks st key of None \<Rightarrow> value | Some v \<Rightarrow> v)"

definition text_input :: "form \<Rightarrow> string \<Rightarrow> string \<Rightarrow> string" where
  "text_input st key value = (case texts st key of None \<Rightarrow> value | Some v \<Rightarrow> v)"

text \<open>Python's \<^verbatim>\<open>str(i)\<close> on a non-negative integer, for the widget keys.\<close>

fun str_nat :: "nat \<Rightarrow> string" where
  "str_nat n =
     (if n < 10 then [''0123456789'' ! n]
      else str_nat (n div 10) @ [''0123456789'' ! (n mod 10)])"

declare str_nat.simps [simp del]

text \<open>Python's \<^verbatim>\<open>str.lower()\<close> on ASCII text.\<close>

definition lower_char :: "char \<Rightarrow> char" where
  "lower_char c =
     (if (65::nat) \<le> of_char c \<and> of_char c \<le> (90::nat) then char_of (of_char c + (32::nat)) else c)"

definition lower :: "string \<Rightarrow> string" where
  "lower s = map lower_char s"

subsection \<open>The configuration document\<close>

record parameter =
  name :: string
  description :: "string option"
  prior_type :: string
  include_flag :: bool
  fit :: bool
  min_value :: real
  max_value :: real
  flag :: "string option"

record element =
  element_name :: string
  parameters :: "parameter list"

text \<open>
  \<open>RECOMMENDED_VALUES\<close>, the same dictionary in both builders: element name to
  parameter name to the pair (min_value, max_value), in the order of the source.
\<close>

definition RECOMMENDED_VALUES :: "(string \<times> (string \<times> (real \<times> real)) list) list" where
  "RECOMMENDED_VALUES =
     [(''Power Law Red Noise'', [(''amplitude'', (- 18, - 10)), (''spectral_index'', (0, 7))]),
      (''Power Law DM Noise'', [(''amplitude'', (- 18, - 10)), (''spectral_index'', (0, 7))]),
      (''EFAC'', [(''global'', (- 1, 0.7)), (''per_flag'', (- 1, 0.7))]),
      (''EQUAD'', [(''global'', (- 9, - 3)), (''per_flag'', (- 9, - 3))])]"

text \<open>\<^verbatim>\<open>RECOMMENDED_VALUES[element_name][param_name]\<close>: a missing key raises KeyError.\<close>

definition recommended :: "string \<Rightarrow> string \<Rightarrow> error + (real \<times> real)" where
  "recommended e param_name =
     (case map_of RECOMMENDED_VALUES e of
        None \<Rightarrow> Inl KeyError
      | Some d \<Rightarrow> (case map_of d param_name of None \<Rightarrow> Inl KeyError | Some b \<Rightarrow> Inr b))"

text \<open>
  The loop over \<^verbatim>\<open>RECOMMENDED_VALUES[element_name].items()\<close>, shared by the two
  builders: one parameter per catalogue entry, with the check boxes and bounds of the form.
\<close>

definition catalogue_parameter :: "form \<Rightarrow> nat \<Rightarrow> string \<times> (real \<times> real) \<Rightarrow> parameter" where
  "catalogue_parameter st i item =
     (let param_name = fst item; param_vals = snd item in
      \<lparr>name = param_name,
       description = None,
       prior_type = (if param_name \<in> set [''amplitude'', ''global'', ''per_flag'']
                     then ''log_uniform'' else ''uniform''),
       include_flag = checkbox st (''include_'' @ str_nat i @ ''_'' @ param_name) True,
       fit = checkbox st (''fit_'' @ str_nat i @ ''_'' @ param_name) True,
       min_value = number_input st (''min_'' @ str_nat i @ ''_'' @ param_name) (fst param_vals),
       max_value = number_input st (''max_'' @ str_nat i @ ''_'' @ param_name) (snd param_vals),
       flag = None\<rparr>)"

definition catalogue_parameters :: "form \<Rightarrow> nat \<Rightarrow> string \<Rightarrow> parameter list" where
  "catalogue_parameters st i e =
     (case map_of RECOMMENDED_VALUES e of
        None \<Rightarrow> []
      | Some items \<Rightarrow> map (catalogue_parameter st i) items)"

subsection \<open>The builder of src/JSON/TempoNest_JSON.py\<close>

definition element_types_JSON :: "string list" where
  "element_types_JSON =
     [''Timing Model'', ''Power Law Red Noise'', ''Power Law DM Noise'', ''EFAC'', ''EQUAD'']"

definition parameters_JSON :: "form \<Rightarrow> nat \<Rightarrow> string \<Rightarrow> error + parameter list" where
  "parameters_JSON st i e =
     (if e \<in> set [''EFAC'', ''EQUAD''] then
        (let selected_model = radio st (''model_type_'' @ str_nat i) [''Global'', ''Per Flag''] in
         if selected_model = ''Global'' then
           (case recommended e ''global'' of
              Inl err \<Rightarrow> Inl err
            | Inr b \<Rightarrow>
                Inr [\<lparr>name = ''global'',
                      description = Some (''global scaling for '' @ lower e @ '' error bars''),
                      prior_type = (if e = ''EFAC'' then ''uniform'' else ''log_uniform''),
                      include_flag = True,
                      fit = True,
                      min_value = number_input st (''global_min_'' @ str_nat i) (fst b),
                      max_value = number_input st (''global_max_'' @ str_nat i) (snd b),
                      flag = None\<rparr>])
         else if selected_model = ''Per Flag'' then
           (case recommended e ''per_flag'' of
              Inl err \<Rightarrow> Inl err
            | Inr b \<Rightarrow>
                Inr [\<lparr>name = ''per_flag'',
                      description = Some (''per flag model for '' @ lower e @ '' error bars''),
                      prior_type = (if e = ''EFAC'' then ''uniform'' else ''log_uniform''),
                      include_flag = True,
                      fit = True,
                      min_value = number_input st (''per_flag_min_'' @ str_nat i) (fst b),
                      max_value = number_input st (''per_flag_max_'' @ str_nat i) (snd b),
                      flag = Some (text_input st (''per_flag_flag_'' @ str_nat i) ''-fe'')\<rparr>])
         else Inr [])
      else Inr (catalogue_parameters st i e))"

definition element_JSON :: "form \<Rightarrow> nat \<Rightarrow> error + element" where
  "element_JSON st i =
     (let e = selectbox st (''element_name_'' @ str_nat i) element_types_JSON in
      case parameters_JSON st i e of
        Inl err \<Rightarrow> Inl err
      | Inr ps \<Rightarrow> Inr \<lparr>element_name = e, parameters = ps\<rparr>)"

subsection \<open>The builder of src/TempoNest_JSON.py\<close>

definition element_types_root :: "string list" where
  "element_types_root =
     [''Power Law Red Noise'', ''Power Law DM Noise'', ''EFAC'', ''EQUAD'', ''Timing Model'']"

definition element_root :: "form \<Rightarrow> nat \<Rightarrow> error + element" where
  "element_root st i =
     (let e = selectbox st (''element_name_'' @ str_nat i) element_types_root in
      Inr \<lparr>element_name = e, parameters = catalogue_parameters st i e\<rparr>)"

subsection \<open>The loop over the elements\<close>

text \<open>
  \<^verbatim>\<open>for i in range(num_elements): ... elements.append(...)\<close>: the elements in order;
  an exception in one pass ends the loop.
\<close>

fun build_elements :: "(nat \<Rightarrow> error + element) \<Rightarrow> nat list \<Rightarrow> error + element list" where
  "build_elements f [] = Inr []"
| "build_elements f (i # is) =
     (case f i of
        Inl err \<Rightarrow> Inl err
      | Inr el \<Rightarrow> (case build_elements f is of Inl err \<Rightarrow> Inl err | Inr els \<Rightarrow> Inr (el # els)))"

definition elements_JSON :: "form \<Rightarrow> nat \<Rightarrow> error + element list" where
  "elements_JSON st num_elements = build_elements (element_JSON st) [0..<num_elements]"

definition elements_root :: "form \<Rightarrow> nat \<Rightarrow> error + element list" where
  "elements_root st num_elements = build_elements (element_root st) [0..<num_elements]"

subsection \<open>The working directory and the export block\<close>

text \<open>
  What the export block of the "Run Simulation" handler leaves behind: the files of the
  working directory (by path), the messages shown with \<^verbatim>\<open>st.error\<close>, the data handed to
  download buttons, and the exception that ended the handler, if one did. The bytes of
  a file are not modelled, only what it is: a parameter file or a time-of-arrival file
  written by the library from a pulsar object, the plot of a series, the summary listing,
  or a zip archive with its members in the order they were added.
\<close>

datatype summary_value =
  Heading string
  | Number real
  | Numbers "real list"
  | NumberWithLog real real

datatype 'p artifact =
  ParFile 'p
  | TimFile 'p
  | PlotImage dataframe
  | SummaryText "(string \<times> summary_value) list"
  | ZipArchive "(string \<times> 'p artifact) list"

record 'p world =
  files :: "string \<Rightarrow> 'p artifact option"
  messages :: "string list"
  downloads :: "(string \<times> 'p artifact) list"
  raised :: "error option"

text \<open>
  Each statement of the block is a step on the world; once an exception has been raised
  the remaining statements do not run.
\<close>

definition write_file :: "string \<Rightarrow> 'p artifact \<Rightarrow> 'p world \<Rightarrow> 'p world" where
  "write_file path a w = (if raised w \<noteq> None then w else w\<lparr>files := (files w)(path \<mapsto> a)\<rparr>)"

definition st_error :: "string \<Rightarrow> 'p world \<Rightarrow> 'p world" where
  "st_error msg w = (if raised w \<noteq> None then w else w\<lparr>messages := messages w @ [msg]\<rparr>)"

fun members :: "'p artifact option \<Rightarrow> (string \<times> 'p artifact) list" where
  "members (Some (ZipArchive ms)) = ms"
| "members _ = []"

text \<open>
  \<^verbatim>\<open>zipf.write(path)\<close> inside \<^verbatim>\<open>with zipfile.ZipFile(zip_file_name, 'w') as zipf\<close>:
  the file is read from the directory (FileNotFoundError when it is not there) and added
  to the archive; on the exception the archive is closed with the members it has.
\<close>

definition zip_write :: "string \<Rightarrow> string \<Rightarrow> 'p world \<Rightarrow> 'p world" where
  "zip_write zip_file_name path w =
     (if raised w \<noteq> None then w
      else case files w path of
             None \<Rightarrow> w\<lparr>raised := Some FileNotFoundError\<rparr>
           | Some a \<Rightarrow>
               w\<lparr>files := (files w)(zip_file_name \<mapsto>
                     ZipArchive (members (files w zip_file_name) @ [(path, a)]))\<rparr>)"

text \<open>\<^verbatim>\<open>st.download_button(data=open(path, 'rb').read(), file_name=path)\<close>.\<close>

definition download_button :: "string \<Rightarrow> 'p world \<Rightarrow> 'p world" where
  "download_button path w =
     (if raised w \<noteq> None then w
      else case files w path of
             None \<Rightarrow> w\<lparr>raised := Some FileNotFoundError\<rparr>
           | Some a \<Rightarrow> w\<lparr>downloads := downloads w @ [(path, a)]\<rparr>)"

text \<open>\<^verbatim>\<open>os.remove(path)\<close>: FileNotFoundError when the file is not there.\<close>

definition os_remove :: "string \<Rightarrow> 'p world \<Rightarrow> 'p world" where
  "os_remove path w =
     (if raised w \<noteq> None then w
      else case files w path of
             None \<Rightarrow> w\<lparr>raised := Some FileNotFoundError\<rparr>
           | Some a \<Rightarrow> w\<lparr>files := (files w)(path := None)\<rparr>)"

text \<open>
  \<^verbatim>\<open>os.path.splitext(p)[0]\<close> (POSIX): the path up to its last dot, when that dot is in
  the last component and is not one of the component's leading dots.
\<close>

definition rfind :: "char \<Rightarrow> string \<Rightarrow> int" where
  "rfind c p =
     (case filter (\<lambda>i. p ! i = c) (rev [0..<length p]) of [] \<Rightarrow> - 1 | i # _ \<Rightarrow> int i)"

definition splitext_root :: "string \<Rightarrow> string" where
  "splitext_root p =
     (let sepIndex = rfind (CHR ''/'') p; dotIndex = rfind (CHR ''.'') p in
      if dotIndex > sepIndex
         \<and> list_ex (\<lambda>k. p ! k \<noteq> CHR ''.'') [nat (sepIndex + 1)..<nat dotIndex]
      then take (nat dotIndex) p
      else p)"

text \<open>The rows of the summary file (the numbers are written with Python's formatting).\<close>

definition summary_rows ::
  "real \<Rightarrow> real list \<Rightarrow> real \<Rightarrow> real \<Rightarrow> real \<Rightarrow> real \<Rightarrow> real \<Rightarrow> real \<Rightarrow> real
     \<Rightarrow> (string \<times> summary_value) list" where
  "summary_rows cadence_days frequencies total_time avg_sn efec_value red_noise_amplitude_log
       red_noise_spectral_index dm_noise_amplitude_log dm_noise_spectral_index =
     [(''Parameter'', Heading ''Value''),
      (''Cadence (days)'', Number cadence_days),
      (''Frequencies (MHz)'', Numbers frequencies),
      (''Total Time (years)'', Number total_time),
      (''Average S/N Value'', Number avg_sn),
      (''EFAC Value'', Number efec_value),
      (''Red Noise Amplitude'', NumberWithLog (10 powr red_noise_amplitude_log) red_noise_amplitude_log),
      (''Red Noise Spectral Index'', Number red_noise_spectral_index),
      (''DM Noise Amplitude'', NumberWithLog (10 powr dm_noise_amplitude_log) dm_noise_amplitude_log),
      (''DM Noise Spectral Index'', Number dm_noise_spectral_index)]"

text \<open>
  Lines 186 to 232 of the handler, from \<^verbatim>\<open>fig.savefig\<close> to the last \<^verbatim>\<open>os.remove\<close>.
  \<open>dir\<close> is the working directory before, \<open>fig\<close> the plotted series, \<open>uid\<close> the four
  characters of the run's UUID.
\<close>

definition export_block ::
  "(string \<Rightarrow> 'p artifact option) \<Rightarrow> 'p simulator \<Rightarrow> dataframe \<Rightarrow> string \<Rightarrow> string \<Rightarrow> string
     \<Rightarrow> (string \<times> summary_value) list \<Rightarrow> 'p world" where
  "export_block dir simulator fig uid par_file_name tim_file_name summary =
     (let summary_file_name = ''simulation_summary_'' @ uid @ ''.txt'';
          par_file_with_uid = splitext_root par_file_name @ ''_'' @ uid @ ''.par'';
          tim_file_with_uid = splitext_root tim_file_name @ ''_'' @ uid @ ''.tim'';
          residual_plot_file = ''residual_plot_'' @ uid @ ''.png'';
          w0 = \<lparr>files = dir, messages = [], downloads = [], raised = None\<rparr>;
          w1 = write_file residual_plot_file (PlotImage fig) w0;
          w2 = (case psr_combined simulator of
                  Some psr \<Rightarrow>
                    write_file tim_file_with_uid (TimFile psr)
                      (write_file par_file_with_uid (ParFile psr) w1)
                | None \<Rightarrow> st_error ''Pulsar data not available. Run the simulation first.'' w1);
          w3 = write_file summary_file_name (SummaryText summary) w2;
          zip_file_name = ''temponest_simulation_'' @ uid @ ''.zip'';
          w4 = write_file zip_file_name (ZipArchive []) w3;
          w5 = zip_write zip_file_name par_file_with_uid w4;
          w6 = zip_write zip_file_name tim_file_with_uid w5;
          w7 = zip_write zip_file_name residual_plot_file w6;
          w8 = zip_write zip_file_name summary_file_name w7;
          w9 = download_button zip_file_name w8;
          w10 = os_remove par_file_with_uid w9;
          w11 = os_remove tim_file_with_uid w10;
          w12 = os_remove residual_plot_file w11;
          w13 = os_remove summary_file_name w12
      in os_remove zip_file_name w13)"

text \<open>
  The "Run Simulation" handler: the simulation, the plot of its result, the export
  block. An exception in the simulation ends the handler before anything is written.
\<close>

definition run_simulation_button ::
  "'p toasim \<Rightarrow> rng \<Rightarrow> (string \<Rightarrow> 'p artifact option) \<Rightarrow> 'p simulator \<Rightarrow> string
     \<Rightarrow> real \<Rightarrow> real list \<Rightarrow> real \<Rightarrow> real \<Rightarrow> real \<Rightarrow> real \<Rightarrow> real \<Rightarrow> real \<Rightarrow> real
     \<Rightarrow> string \<Rightarrow> string \<Rightarrow> 'p simulator \<times> 'p world" where
  "run_simulation_button L g dir simulator uid cadence_days frequencies total_time avg_sn efec_value
       red_noise_amplitude_log red_noise_spectral_index dm_noise_amplitude_log
       dm_noise_spectral_index par_file_name tim_file_name =
     (case simulate_residuals L g avg_sn simulator cadence_days frequencies
             (10 powr red_noise_amplitude_log, red_noise_spectral_index)
             (10 powr dm_noise_amplitude_log, dm_noise_spectral_index) total_time efec_value of
        Inl e \<Rightarrow> (simulator, \<lparr>files = dir, messages = [], downloads = [], raised = Some e\<rparr>)
      | Inr (simulator', simulated_data) \<Rightarrow>
          (simulator',
           export_block dir simulator' simulated_data uid par_file_name tim_file_name
             (summary_rows cadence_days frequencies total_time avg_sn efec_value
                red_noise_amplitude_log red_noise_spectral_index dm_noise_amplitude_log
                dm_noise_spectral_index)))"

text \<open>A pulsar object of the evaluation library, after the three noise calls.\<close>

definition example_pulsar :: recorded_pulsar where
  "example_pulsar =
     \<lparr>stored_toas = [56658], stored_toaerrs = [1 / 20], stored_freqs = [1400],
      calls = [RedNoise (1 / 10 ^ 14) 4, DMNoise (1 / 10 ^ 14) 4, Efac 1.2]\<rparr>"

section \<open>Properties\<close>

subsection \<open>combine_residuals: content and order\<close>

lemma astype_float64_id: "astype_float64 df = df"
  by (simp add: astype_float64_def map_idI)

lemma map_astype_float64: "map astype_float64 data_list = data_list"
  by (induction data_list) (simp_all add: astype_float64_id)

lemma combine_residuals_Inr:
  "data_list \<noteq> [] \<Longrightarrow> combine_residuals data_list = Inr (sort_values (concat data_list))"
  by (simp add: combine_residuals_def pd_concat_def map_astype_float64)

lemma mset_sort_values: "mset (sort_values df) = mset df"
  by (simp add: sort_values_def)

lemma length_sort_values: "length (sort_values df) = length df"
  by (simp add: sort_values_def)

lemma sorted_wrt_row_le_sort_values: "sorted_wrt row_le (sort_values df)"
proof -
  have "sorted (map (\<lambda>r. (Date r, Frequency r)) (sort_values df))"
    by (simp add: sort_values_def)
  then have "sorted_wrt (\<lambda>r s. (Date r, Frequency r) \<le> (Date s, Frequency s)) (sort_values df)"
    by (simp add: sorted_map)
  moreover have "(\<lambda>r s. (Date r, Frequency r) \<le> (Date s, Frequency s)) = row_le"
    by (auto simp: row_le_def less_eq_prod_def fun_eq_iff)
  ultimately show ?thesis by simp
qed

lemma mset_concat_perm:
  "mset xss = mset yss \<Longrightarrow> mset (concat xss) = mset (concat yss)"
  by (metis mset_concat mset_map sum_mset_sum_list)

text \<open>
  C1, as the code has it. On a non-empty list of series \<open>combine_residuals\<close> returns a
  series whose rows are exactly the multiset union of the input rows, in non-decreasing
  order of (epoch, frequency); supplying the same series in another order gives an
  output with the same rows. (On the empty list \<open>pd.concat\<close> raises ValueError, so
  the statement is for non-empty lists.)
\<close>

theorem combine_residuals_rows_sorted_order_independent:
  assumes "data_list \<noteq> []"
  shows "\<exists>out. combine_residuals data_list = Inr out
          \<and> mset out = (\<Sum>df\<leftarrow>data_list. mset df)
          \<and> sorted_wrt row_le out
          \<and> (\<forall>other. mset other = mset data_list \<longrightarrow>
                (\<exists>out'. combine_residuals other = Inr out' \<and> mset out' = mset out))"
proof -
  have perm: "\<exists>out'. combine_residuals other = Inr out'
                \<and> mset out' = mset (sort_values (concat data_list))"
    if "mset other = mset data_list" for other
  proof -
    from that assms have "other \<noteq> []" by auto
    then show ?thesis
      using mset_concat_perm [OF that] by (simp add: combine_residuals_Inr mset_sort_values)
  qed
  show ?thesis
    using assms perm
    by (simp add: combine_residuals_Inr mset_sort_values mset_concat sorted_wrt_row_le_sort_values)
qed

theorem combine_residuals_rows_sorted_order_independent_witness:
  "[[\<lparr>Date = 56668, Residual = 1, Uncertainty = 1 / 20, Frequency = 1400\<rparr>,
     \<lparr>Date = 56658, Residual = 2, Uncertainty = 1 / 20, Frequency = 1400\<rparr>],
    [\<lparr>Date = 56658, Residual = 3, Uncertainty = 1 / 25, Frequency = 800\<rparr>]] \<noteq> []
   \<and> combine_residuals
        [[\<lparr>Date = 56668, Residual = 1, Uncertainty = 1 / 20, Frequency = 1400\<rparr>,
          \<lparr>Date = 56658, Residual = 2, Uncertainty = 1 / 20, Frequency = 1400\<rparr>],
         [\<lparr>Date = 56658, Residual = 3, Uncertainty = 1 / 25, Frequency = 800\<rparr>]]
      = Inr [\<lparr>Date = 56658, Residual = 3, Uncertainty = 1 / 25, Frequency = 800\<rparr>,
             \<lparr>Date = 56658, Residual = 2, Uncertainty = 1 / 20, Frequency = 1400\<rparr>,
             \<lparr>Date = 56668, Residual = 1, Uncertainty = 1 / 20, Frequency = 1400\<rparr>]
   \<and> (\<exists>out'. combine_residuals
        [[\<lparr>Date = 56658, Residual = 3, Uncertainty = 1 / 25, Frequency = 800\<rparr>],
         [\<lparr>Date = 56668, Residual = 1, Uncertainty = 1 / 20, Frequency = 1400\<rparr>,
          \<lparr>Date = 56658, Residual = 2, Uncertainty = 1 / 20, Frequency = 1400\<rparr>]] = Inr out'
        \<and> mset out' = mset [\<lparr>Date = 56658, Residual = 3, Uncertainty = 1 / 25, Frequency = 800\<rparr>,
             \<lparr>Date = 56658, Residual = 2, Uncertainty = 1 / 20, Frequency = 1400\<rparr>,
             \<lparr>Date = 56668, Residual = 1, Uncertainty = 1 / 20, Frequency = 1400\<rparr>])"
proof -
  let ?a = "[\<lparr>Date = 56668, Residual = 1, Uncertainty = 1 / 20, Frequency = 1400\<rparr>,
     \<lparr>Date = 56658, Residual = 2, Uncertainty = 1 / 20, Frequency = 1400\<rparr>]"
  let ?b = "[\<lparr>Date = 56658, Residual = 3, Uncertainty = 1 / 25, Frequency = 800\<rparr>]"
  have ne: "[?a, ?b] \<noteq> []" by simp
  have ev: "combine_residuals [?a, ?b]
      = Inr [\<lparr>Date = 56658, Residual = 3, Uncertainty = 1 / 25, Frequency = 800\<rparr>,
             \<lparr>Date = 56658, Residual = 2, Uncertainty = 1 / 20, Frequency = 1400\<rparr>,
             \<lparr>Date = 56668, Residual = 1, Uncertainty = 1 / 20, Frequency = 1400\<rparr>]"
    by (simp add: combine_residuals_def pd_concat_def astype_float64_def sort_values_def
        less_eq_prod_def)
  have sw: "mset [?b, ?a] = mset [?a, ?b]" by simp
  from combine_residuals_rows_sorted_order_independent [OF ne] ev sw show ?thesis
    by (metis Inr_inject list.distinct(1))
qed

text \<open>
  C1 as the specification words it ("for every list of input series combine produces an
  output") fails at the empty list: no output is produced there.
\<close>

theorem combine_residuals_empty_list_counterexample:
  "\<not> (\<exists>out. combine_residuals [] = Inr out)"
  by (simp add: combine_residuals_def pd_concat_def)

text \<open>
  C9. Sorting the output of \<open>combine_residuals\<close> again by (epoch, frequency) returns
  it unchanged, and so does combining it once more on its own.
\<close>

theorem sort_values_idempotent_on_combined:
  assumes "combine_residuals data_list = Inr out"
  shows "sort_values out = out \<and> combine_residuals [out] = Inr out"
proof -
  have "sorted (map (\<lambda>r. (Date r, Frequency r)) out)"
    using assms
    by (auto simp: combine_residuals_def pd_concat_def sort_values_def map_astype_float64
        split: if_splits)
  then have "sort_values out = out"
    unfolding sort_values_def by (rule sort_key_id_if_sorted)
  then show ?thesis by (simp add: combine_residuals_Inr)
qed

theorem sort_values_idempotent_on_combined_witness:
  "combine_residuals
        [[\<lparr>Date = 56668, Residual = 1, Uncertainty = 1 / 20, Frequency = 1400\<rparr>,
          \<lparr>Date = 56658, Residual = 2, Uncertainty = 1 / 20, Frequency = 1400\<rparr>],
         [\<lparr>Date = 56658, Residual = 3, Uncertainty = 1 / 25, Frequency = 800\<rparr>]]
      = Inr [\<lparr>Date = 56658, Residual = 3, Uncertainty = 1 / 25, Frequency = 800\<rparr>,
             \<lparr>Date = 56658, Residual = 2, Uncertainty = 1 / 20, Frequency = 1400\<rparr>,
             \<lparr>Date = 56668, Residual = 1, Uncertainty = 1 / 20, Frequency = 1400\<rparr>]
   \<and> sort_values [\<lparr>Date = 56658, Residual = 3, Uncertainty = 1 / 25, Frequency = 800\<rparr>,
             \<lparr>Date = 56658, Residual = 2, Uncertainty = 1 / 20, Frequency = 1400\<rparr>,
             \<lparr>Date = 56668, Residual = 1, Uncertainty = 1 / 20, Frequency = 1400\<rparr>]
       = [\<lparr>Date = 56658, Residual = 3, Uncertainty = 1 / 25, Frequency = 800\<rparr>,
             \<lparr>Date = 56658, Residual = 2, Uncertainty = 1 / 20, Frequency = 1400\<rparr>,
             \<lparr>Date = 56668, Residual = 1, Uncertainty = 1 / 20, Frequency = 1400\<rparr>]"
proof -
  have ev: "combine_residuals
        [[\<lparr>Date = 56668, Residual = 1, Uncertainty = 1 / 20, Frequency = 1400\<rparr>,
          \<lparr>Date = 56658, Residual = 2, Uncertainty = 1 / 20, Frequency = 1400\<rparr>],
         [\<lparr>Date = 56658, Residual = 3, Uncertainty = 1 / 25, Frequency = 800\<rparr>]]
      = Inr [\<lparr>Date = 56658, Residual = 3, Uncertainty = 1 / 25, Frequency = 800\<rparr>,
             \<lparr>Date = 56658, Residual = 2, Uncertainty = 1 / 20, Frequency = 1400\<rparr>,
             \<lparr>Date = 56668, Residual = 1, Uncertainty = 1 / 20, Frequency = 1400\<rparr>]"
    by (simp add: combine_residuals_def pd_concat_def astype_float64_def sort_values_def
        less_eq_prod_def)
  from sort_values_idempotent_on_combined [OF ev] ev show ?thesis by simp
qed

subsection \<open>simulate_residuals_freq: number of rows and uncertainties\<close>

lemma py_int_nonneg: "0 \<le> x \<Longrightarrow> py_int x = \<lfloor>x\<rfloor>"
  by (simp add: py_int_def)



lemma linspace_length: "linspace a b n = Inr xs \<Longrightarrow> length xs = nat n \<and> 0 \<le> n"
  by (auto simp: linspace_def split: if_splits)

lemma length_full: "length (full n v) = nat n"
  by (simp add: full_def)

lemma length_sn_ratios: "length (sn_ratios avg_sn n g) = nat n"
  by (simp add: sn_ratios_def clip_min_def random_normal_def)

lemma sn_ratios_floor: "s \<in> set (sn_ratios avg_sn n g) \<Longrightarrow> 1 / 1000 \<le> s"
  by (auto simp: sn_ratios_def clip_min_def)

lemma length_toa_errors: "length (toa_errors avg_sn n g) = nat n"
  by (simp add: toa_errors_def length_sn_ratios)

lemma toa_errors_bounds:
  assumes "e \<in> set (toa_errors avg_sn n g)"
  shows "0 < e \<and> e \<le> 1000"
proof -
  from assms obtain s where s: "s \<in> set (sn_ratios avg_sn n g)" and e: "e = 1 / s"
    by (auto simp: toa_errors_def)
  from sn_ratios_floor [OF s] have lo: "1 / 1000 \<le> s" .
  then have pos: "0 < s" by simp
  from lo pos have "1 / s \<le> 1000"
    by (simp add: field_simps)
  with pos e show ?thesis by simp
qed

lemma DataFrame_Inr:
  assumes "DataFrame ds rs us fs = Inr df"
  shows "length df = length ds \<and> map Date df = ds \<and> map Residual df = rs
         \<and> map Uncertainty df = us \<and> map Frequency df = fs"
proof -
  from assms have len: "length rs = length ds" "length us = length ds" "length fs = length ds"
    and df: "df = map (\<lambda>i. \<lparr>Date = ds ! i, Residual = rs ! i, Uncertainty = us ! i, Frequency = fs ! i\<rparr>) [0..<length ds]"
    by (auto simp: DataFrame_def split: if_splits)
  show ?thesis
    using len by (simp add: df o_def map_nth) (metis map_nth)
qed

lemma DataFrame_Inl:
  "DataFrame ds rs us fs = Inl e \<Longrightarrow> \<not> (length rs = length ds \<and> length us = length ds \<and> length fs = length ds)"
  by (auto simp: DataFrame_def split: if_splits)

lemma simulate_residuals_freq_Inr:
  assumes "simulate_residuals_freq L g X_days freq totaltime avg_sn = Inr (data, g')"
  shows "\<exists>mjds psr. X_days \<noteq> 0
     \<and> linspace start_mjd (end_mjd totaltime) (py_int ((end_mjd totaltime - start_mjd) / X_days)) = Inr mjds
     \<and> fakepulsar L ''fake.par'' mjds
          (toa_errors avg_sn (py_int ((end_mjd totaltime - start_mjd) / X_days)) g)
          (full (py_int ((end_mjd totaltime - start_mjd) / X_days)) freq) = Inr psr
     \<and> DataFrame (toas L psr) (map (\<lambda>x. x / (1 / 1000000)) (residuals L psr))
                         (toaerrs L psr) (freqs L psr) = Inr data"
  using assms
  by (auto simp: simulate_residuals_freq_def Let_def split: if_splits sum.splits)


lemma faithful_recording: "faithful_generator recording_toasim"
  by (auto simp: faithful_generator_def recording_toasim_def)

lemma n_toas_cadence_10_one_year: "py_int ((end_mjd 1 - start_mjd) / 10) = 36"
  by (simp add: end_mjd_def start_mjd_def py_int_def)






text \<open>
  C10. Whatever the requested mean signal-to-noise ratio (zero and negative included)
  and whatever the draws, every clipped ratio is at least 1e-3, so its reciprocal is
  never a division by zero, every uncertainty handed to the library lies in (0, 1000],
  and so does every uncertainty of a produced series.
\<close>

theorem simulate_residuals_freq_uncertainty_at_most_1000:
  assumes "faithful_generator L"
  shows "(\<forall>s \<in> set (sn_ratios avg_sn n g). 1 / 1000 \<le> s)
     \<and> (\<forall>e \<in> set (toa_errors avg_sn n g). 0 < e \<and> e \<le> 1000)
     \<and> (\<forall>data g'. simulate_residuals_freq L g X_days freq totaltime avg_sn = Inr (data, g') \<longrightarrow>
           (\<forall>r \<in> set data. 0 < Uncertainty r \<and> Uncertainty r \<le> 1000))"
proof (intro conjI allI impI ballI)
  fix s assume "s \<in> set (sn_ratios avg_sn n g)"
  then show "1 / 1000 \<le> s" by (rule sn_ratios_floor)
next
  fix e assume e: "e \<in> set (toa_errors avg_sn n g)"
  from toa_errors_bounds [OF e] show "0 < e" "e \<le> 1000" by simp_all
next
  fix data g' r
  assume run: "simulate_residuals_freq L g X_days freq totaltime avg_sn = Inr (data, g')"
    and r: "r \<in> set data"
  let ?n = "py_int ((end_mjd totaltime - start_mjd) / X_days)"
  from simulate_residuals_freq_Inr [OF run] obtain mjds psr where
    fp: "fakepulsar L ''fake.par'' mjds (toa_errors avg_sn ?n g) (full ?n freq) = Inr psr"
    and df: "DataFrame (toas L psr) (map (\<lambda>x. x / (1 / 1000000)) (residuals L psr))
                         (toaerrs L psr) (freqs L psr) = Inr data"
    by blast
  from fp assms have lib: "toaerrs L psr = toa_errors avg_sn ?n g"
    unfolding faithful_generator_def by blast
  from DataFrame_Inr [OF df] have d: "map Uncertainty data = toaerrs L psr" by simp
  from r have "Uncertainty r \<in> set (map Uncertainty data)" by simp
  then have "Uncertainty r \<in> set (toa_errors avg_sn ?n g)" by (simp only: d lib)
  from toa_errors_bounds [OF this] show "0 < Uncertainty r" "Uncertainty r \<le> 1000" by simp_all
qed

lemma n_toas_cadence_100_one_year: "py_int ((end_mjd 1 - start_mjd) / 100) = 3"
  by (simp add: end_mjd_def start_mjd_def py_int_def)

lemma sn_ratios_negative_mean: "sn_ratios (- 3) 3 (\<lambda>_. 0) = [1 / 1000, 1 / 1000, 1 / 1000]"
  by (simp add: sn_ratios_def clip_min_def random_normal_def upt_rec)

lemma recording_negative_mean_run: "\<exists>data g'. simulate_residuals_freq recording_toasim (\<lambda>_. 0) 100 1400 1 (- 3) = Inr (data, g')
    \<and> map Uncertainty data = [1000, 1000, 1000]"
  by (simp add: simulate_residuals_freq_def n_toas_cadence_100_one_year Let_def linspace_def recording_toasim_def
      DataFrame_def length_toa_errors length_full toa_errors_def sn_ratios_negative_mean upt_rec o_def full_def)

theorem simulate_residuals_freq_uncertainty_at_most_1000_witness:
  "faithful_generator recording_toasim
   \<and> list_all (\<lambda>s. 1 / 1000 \<le> s) (sn_ratios (- 3) 3 (\<lambda>_. 0))
   \<and> (\<exists>data g'. simulate_residuals_freq recording_toasim (\<lambda>_. 0) 100 1400 1 (- 3) = Inr (data, g')
         \<and> map Uncertainty data = [1000, 1000, 1000]
         \<and> list_all (\<lambda>r. 0 < Uncertainty r \<and> Uncertainty r \<le> 1000) data)"
proof -
  obtain data g' where run:
    "simulate_residuals_freq recording_toasim (\<lambda>_. 0) 100 1400 1 (- 3) = Inr (data, g')"
    and u: "map Uncertainty data = [1000, 1000, 1000]"
    using recording_negative_mean_run by (elim exE conjE)
  from simulate_residuals_freq_uncertainty_at_most_1000
         [OF faithful_recording, of "- 3" 3 "\<lambda>_. 0" 100 1400 1] run
  have "list_all (\<lambda>s. 1 / 1000 \<le> s) (sn_ratios (- 3) 3 (\<lambda>_. 0))"
    and "list_all (\<lambda>r. 0 < Uncertainty r \<and> Uncertainty r \<le> 1000) data"
    by (simp_all add: list_all_iff)
  with run u faithful_recording show ?thesis
    by (intro conjI exI [of _ data] exI [of _ g'])
qed

subsection \<open>inject_dm_noise_on_combined: the order of the noise calls\<close>

text \<open>
  C5. The noise injector applies the three library routines to the pulsar object in
  this order: \<open>add_rednoise\<close> with the red-noise parameters, then \<open>add_dm\<close> with the
  dispersion-measure parameters on the result, then \<open>add_efac\<close> on the result of that;
  the residuals and uncertainties it returns are read from the object after the third.
\<close>

theorem inject_applies_rednoise_dm_efac_in_order:
  assumes "add_rednoise L psr (fst red_noise_params) (snd red_noise_params) = Inr psr1"
    and "add_dm L psr1 (fst dm_noise_params) (snd dm_noise_params) = Inr psr2"
    and "add_efac L psr2 efac_value = Inr psr3"
  shows "inject_dm_noise_on_combined L psr dm_noise_params red_noise_params efac_value
           = Inr (residuals L psr3, toaerrs L psr3, psr3)"
  using assms by (simp add: inject_dm_noise_on_combined_def)

theorem inject_applies_rednoise_dm_efac_in_order_witness:
  "add_rednoise recording_toasim
      \<lparr>stored_toas = [56658], stored_toaerrs = [1 / 20], stored_freqs = [1400], calls = []\<rparr> (1 / 10 ^ 14) 4
     = Inr \<lparr>stored_toas = [56658], stored_toaerrs = [1 / 20], stored_freqs = [1400],
            calls = [RedNoise (1 / 10 ^ 14) 4]\<rparr>
   \<and> add_dm recording_toasim
      \<lparr>stored_toas = [56658], stored_toaerrs = [1 / 20], stored_freqs = [1400],
            calls = [RedNoise (1 / 10 ^ 14) 4]\<rparr> (1 / 10 ^ 13) 3
     = Inr \<lparr>stored_toas = [56658], stored_toaerrs = [1 / 20], stored_freqs = [1400],
            calls = [RedNoise (1 / 10 ^ 14) 4, DMNoise (1 / 10 ^ 13) 3]\<rparr>
   \<and> add_efac recording_toasim
      \<lparr>stored_toas = [56658], stored_toaerrs = [1 / 20], stored_freqs = [1400],
            calls = [RedNoise (1 / 10 ^ 14) 4, DMNoise (1 / 10 ^ 13) 3]\<rparr> 1.2
     = Inr \<lparr>stored_toas = [56658], stored_toaerrs = [1 / 20], stored_freqs = [1400],
            calls = [RedNoise (1 / 10 ^ 14) 4, DMNoise (1 / 10 ^ 13) 3, Efac 1.2]\<rparr>
   \<and> inject_dm_noise_on_combined recording_toasim
        \<lparr>stored_toas = [56658], stored_toaerrs = [1 / 20], stored_freqs = [1400], calls = []\<rparr>
        (1 / 10 ^ 13, 3) (1 / 10 ^ 14, 4) 1.2
     = Inr ([0], [1 / 20],
         \<lparr>stored_toas = [56658], stored_toaerrs = [1 / 20], stored_freqs = [1400],
            calls = [RedNoise (1 / 10 ^ 14) 4, DMNoise (1 / 10 ^ 13) 3, Efac 1.2]\<rparr>)"
proof -
  let ?p0 = "\<lparr>stored_toas = [56658], stored_toaerrs = [1 / 20], stored_freqs = [1400], calls = []\<rparr>"
  let ?p1 = "\<lparr>stored_toas = [56658], stored_toaerrs = [1 / 20], stored_freqs = [1400],
            calls = [RedNoise (1 / 10 ^ 14) 4]\<rparr>"
  let ?p2 = "\<lparr>stored_toas = [56658], stored_toaerrs = [1 / 20], stored_freqs = [1400],
            calls = [RedNoise (1 / 10 ^ 14) 4, DMNoise (1 / 10 ^ 13) 3]\<rparr>"
  let ?p3 = "\<lparr>stored_toas = [56658], stored_toaerrs = [1 / 20], stored_freqs = [1400],
            calls = [RedNoise (1 / 10 ^ 14) 4, DMNoise (1 / 10 ^ 13) 3, Efac 1.2]\<rparr>"
  have a: "add_rednoise recording_toasim ?p0 (fst (1 / 10 ^ 14, 4)) (snd (1 / 10 ^ 14, 4)) = Inr ?p1"
    by (simp add: recording_toasim_def)
  have b: "add_dm recording_toasim ?p1 (fst (1 / 10 ^ 13, 3)) (snd (1 / 10 ^ 13, 3)) = Inr ?p2"
    by (simp add: recording_toasim_def)
  have c: "add_efac recording_toasim ?p2 1.2 = Inr ?p3"
    by (simp add: recording_toasim_def)
  have r: "residuals recording_toasim ?p3 = [0]" "toaerrs recording_toasim ?p3 = [1 / 20]"
    by (simp_all add: recording_toasim_def)
  from inject_applies_rednoise_dm_efac_in_order [OF a b c] a b c r show ?thesis by simp
qed

subsection \<open>simulate_residuals: what noise injection leaves unchanged\<close>

lemma set_Residual_Inr:
  assumes "set_Residual df vs = Inr df'"
  shows "length df' = length df \<and> map Date df' = map Date df \<and> map Frequency df' = map Frequency df
     \<and> map Uncertainty df' = map Uncertainty df \<and> map Residual df' = vs"
proof -
  from assms have len: "length vs = length df"
    and df': "df' = map (\<lambda>i. (df ! i)\<lparr>Residual := vs ! i\<rparr>) [0..<length df]"
    by (auto simp: set_Residual_def split: if_splits)
  have l: "length df' = length df" by (simp add: df')
  have n: "df' ! i = (df ! i)\<lparr>Residual := vs ! i\<rparr>" if "i < length df" for i
    using that by (simp add: df')
  show ?thesis
    using l len n by (simp add: list_eq_iff_nth_eq)
qed

lemma set_Uncertainty_Inr:
  assumes "set_Uncertainty df vs = Inr df'"
  shows "length df' = length df \<and> map Date df' = map Date df \<and> map Frequency df' = map Frequency df
     \<and> map Residual df' = map Residual df \<and> map Uncertainty df' = vs"
proof -
  from assms have len: "length vs = length df"
    and df': "df' = map (\<lambda>i. (df ! i)\<lparr>Uncertainty := vs ! i\<rparr>) [0..<length df]"
    by (auto simp: set_Uncertainty_def split: if_splits)
  have l: "length df' = length df" by (simp add: df')
  have n: "df' ! i = (df ! i)\<lparr>Uncertainty := vs ! i\<rparr>" if "i < length df" for i
    using that by (simp add: df')
  show ?thesis
    using l len n by (simp add: list_eq_iff_nth_eq)
qed

lemma simulate_residuals_freq_length:
  assumes "simulate_residuals_freq L g X_days freq totaltime avg_sn = Inr (data, g')"
    and "faithful_generator L" and "0 < X_days" and "0 \<le> totaltime"
  shows "int (length data) = \<lfloor>365.25 * totaltime / X_days\<rfloor>"
proof -
  let ?n = "py_int ((end_mjd totaltime - start_mjd) / X_days)"
  from simulate_residuals_freq_Inr [OF assms(1)] obtain mjds psr where
    lin: "linspace start_mjd (end_mjd totaltime) ?n = Inr mjds"
    and fp: "fakepulsar L ''fake.par'' mjds (toa_errors avg_sn ?n g) (full ?n freq) = Inr psr"
    and df: "DataFrame (toas L psr) (map (\<lambda>x. x / (1 / 1000000)) (residuals L psr))
                         (toaerrs L psr) (freqs L psr) = Inr data"
    by blast
  from fp assms(2) have lib: "length (toas L psr) = length mjds"
    unfolding faithful_generator_def by blast
  from DataFrame_Inr [OF df] have d: "length data = length (toas L psr)" by simp
  have q: "0 \<le> (end_mjd totaltime - start_mjd) / X_days"
    using assms(3,4) by (simp add: end_mjd_def)
  from linspace_length [OF lin] d lib have "int (length data) = ?n" by simp
  then show ?thesis
    by (simp add: py_int_nonneg [OF q]) (simp add: end_mjd_def)
qed

lemma simulate_all_lengths:
  assumes "simulate_all L g cadence_days observing_freqs totaltime avg_sn = Inr (all_data, g')"
  shows "length all_data = length observing_freqs
     \<and> (faithful_generator L \<and> 0 < cadence_days \<and> 0 \<le> totaltime \<longrightarrow>
          (\<forall>d \<in> set all_data. int (length d) = \<lfloor>365.25 * totaltime / cadence_days\<rfloor>))"
  using assms
proof (induction observing_freqs arbitrary: g all_data)
  case Nil
  then show ?case by simp
next
  case (Cons freq fs)
  from Cons.prems obtain d g1 ds where
    one: "simulate_residuals_freq L g cadence_days freq totaltime avg_sn = Inr (d, g1)"
    and rest: "simulate_all L g1 cadence_days fs totaltime avg_sn = Inr (ds, g')"
    and all: "all_data = d # ds"
    by (auto split: sum.splits prod.splits)
  from Cons.IH [OF rest] simulate_residuals_freq_length [OF one] all
  show ?case by auto
qed

lemma length_concat_uniform:
  "\<forall>d \<in> set xss. int (length d) = n \<Longrightarrow> int (length (concat xss)) = int (length xss) * n"
  by (induction xss) (auto simp: algebra_simps)

lemma combine_residuals_length:
  "combine_residuals data_list = Inr out \<Longrightarrow> length out = length (concat data_list)"
  by (auto simp: combine_residuals_def pd_concat_def map_astype_float64 length_sort_values
      split: if_splits)

lemma simulate_residuals_Inr:
  assumes "simulate_residuals L g avg_sn self cadence_days observing_freqs red_noise_params
             dm_noise_params totaltime efac_value = Inr (self', out)"
  shows "\<exists>all_data g' combined_data psr res errs psr' data1.
           simulate_all L g cadence_days observing_freqs totaltime avg_sn = Inr (all_data, g')
         \<and> combine_residuals all_data = Inr combined_data
         \<and> fakepulsar L ''fake.par'' (map Date combined_data) (map Uncertainty combined_data)
              (map Frequency combined_data) = Inr psr
         \<and> inject_dm_noise_on_combined L psr dm_noise_params red_noise_params efac_value
              = Inr (res, errs, psr')
         \<and> set_Residual combined_data (map (\<lambda>x. x / (1 / 1000000)) res) = Inr data1
         \<and> set_Uncertainty data1 errs = Inr out
         \<and> self' = self\<lparr>psr_combined := Some psr'\<rparr>"
  using assms
  by (auto simp: simulate_residuals_def split: sum.splits prod.splits)

lemma recording_simulation_run: "\<exists>self' out.
   simulate_residuals recording_toasim (\<lambda>_. 0) 20 init 10 [800, 1400] (1 / 10 ^ 14, 4)
      (1 / 10 ^ 14, 4) 1 1.2 = Inr (self', out)"
  by (simp add: simulate_residuals_def simulate_residuals_freq_def n_toas_cadence_10_one_year Let_def linspace_def
      recording_toasim_def DataFrame_def length_toa_errors length_full combine_residuals_def
      pd_concat_def inject_dm_noise_on_combined_def set_Residual_def set_Uncertainty_def
      length_sort_values astype_float64_def)

text \<open>
  C6. A simulation run that returns a series returns the merged series with only its
  residual and uncertainty columns rewritten: the same number of rows, the same epochs
  and the same frequencies as the merged series before injection. With a library that
  returns one time of arrival per epoch, each per-frequency series has
  \<open>floor (365.25 * totaltime / cadence_days)\<close> rows and the result has that many rows per
  observing frequency (cadence 10, one year, two frequencies: 36, 36 and 72).
\<close>

theorem simulate_residuals_keeps_rows_epochs_frequencies:
  assumes "simulate_residuals L g avg_sn self cadence_days observing_freqs red_noise_params
             dm_noise_params totaltime efac_value = Inr (self', out)"
  shows "\<exists>all_data g' combined_data.
           simulate_all L g cadence_days observing_freqs totaltime avg_sn = Inr (all_data, g')
         \<and> combine_residuals all_data = Inr combined_data
         \<and> length out = length combined_data
         \<and> map Date out = map Date combined_data
         \<and> map Frequency out = map Frequency combined_data
         \<and> length all_data = length observing_freqs
         \<and> (faithful_generator L \<and> 0 < cadence_days \<and> 0 \<le> totaltime \<longrightarrow>
              (\<forall>d \<in> set all_data. int (length d) = \<lfloor>365.25 * totaltime / cadence_days\<rfloor>)
            \<and> int (length out) = int (length observing_freqs) * \<lfloor>365.25 * totaltime / cadence_days\<rfloor>)"
proof -
  from simulate_residuals_Inr [OF assms] obtain all_data g' combined_data res data1 where
    sim: "simulate_all L g cadence_days observing_freqs totaltime avg_sn = Inr (all_data, g')"
    and comb: "combine_residuals all_data = Inr combined_data"
    and r: "set_Residual combined_data (map (\<lambda>x. x / (1 / 1000000)) res) = Inr data1"
    and u: "\<exists>errs. set_Uncertainty data1 errs = Inr out"
    by blast
  from u obtain errs where u': "set_Uncertainty data1 errs = Inr out" by blast
  from set_Residual_Inr [OF r] set_Uncertainty_Inr [OF u']
  have fr: "length out = length combined_data" "map Date out = map Date combined_data"
    "map Frequency out = map Frequency combined_data"
    by simp_all
  from simulate_all_lengths [OF sim] have
    la: "length all_data = length observing_freqs"
    and ld: "faithful_generator L \<and> 0 < cadence_days \<and> 0 \<le> totaltime \<Longrightarrow>
          \<forall>d \<in> set all_data. int (length d) = \<lfloor>365.25 * totaltime / cadence_days\<rfloor>"
    by blast+
  have lo: "int (length out) = int (length observing_freqs) * \<lfloor>365.25 * totaltime / cadence_days\<rfloor>"
    if "faithful_generator L \<and> 0 < cadence_days \<and> 0 \<le> totaltime"
    using length_concat_uniform [OF ld [OF that]] combine_residuals_length [OF comb] fr(1) la
    by simp
  from sim comb fr la ld lo show ?thesis by blast
qed

theorem simulate_residuals_keeps_rows_epochs_frequencies_witness:
  "\<exists>self' out all_data g' combined_data.
      simulate_residuals recording_toasim (\<lambda>_. 0) 20 init 10 [800, 1400] (1 / 10 ^ 14, 4)
         (1 / 10 ^ 14, 4) 1 1.2 = Inr (self', out)
    \<and> simulate_all recording_toasim (\<lambda>_. 0) 10 [800, 1400] 1 20 = Inr (all_data, g')
    \<and> combine_residuals all_data = Inr combined_data
    \<and> map length all_data = [36, 36]
    \<and> length combined_data = 72
    \<and> length out = 72
    \<and> map Date out = map Date combined_data
    \<and> map Frequency out = map Frequency combined_data"
proof -
  obtain self' out where run:
    "simulate_residuals recording_toasim (\<lambda>_. 0) 20 init 10 [800, 1400] (1 / 10 ^ 14, 4)
         (1 / 10 ^ 14, 4) 1 1.2 = Inr (self', out)"
    using recording_simulation_run by blast
  from simulate_residuals_keeps_rows_epochs_frequencies [OF run] obtain all_data g' combined_data where
    sim: "simulate_all recording_toasim (\<lambda>_. 0) 10 [800, 1400] 1 20 = Inr (all_data, g')"
    and comb: "combine_residuals all_data = Inr combined_data"
    and fr: "length out = length combined_data" "map Date out = map Date combined_data"
      "map Frequency out = map Frequency combined_data"
    and la: "length all_data = length [800, 1400 :: real]"
    and ex: "faithful_generator recording_toasim \<and> (0::real) < 10 \<and> (0::real) \<le> 1 \<longrightarrow>
              (\<forall>d \<in> set all_data. int (length d) = \<lfloor>365.25 * 1 / (10::real)\<rfloor>)
            \<and> int (length out) = int (length [800, 1400 :: real]) * \<lfloor>365.25 * 1 / (10::real)\<rfloor>"
    by blast
  have fl: "\<lfloor>365.25 * 1 / (10::real)\<rfloor> = 36" by simp
  from ex faithful_recording fl have
    each: "\<forall>d \<in> set all_data. int (length d) = 36" and tot: "int (length out) = 72"
    by simp_all
  from la obtain a b where ab: "all_data = [a, b]"
    by (auto simp: length_Suc_conv)
  with each have "map length all_data = [36, 36]" by simp
  moreover from tot have "length out = 72" by simp
  ultimately show ?thesis using run sim comb fr by auto
qed

subsection \<open>The configuration builders\<close>

lemma str_nat_0: "str_nat 0 = ''0''"
  by (simp add: str_nat.simps)



lemma build_elements_Inr:
  "build_elements f ns = Inr els \<Longrightarrow>
     length els = length ns \<and> (\<forall>k < length ns. f (ns ! k) = Inr (els ! k))"
proof (induction ns arbitrary: els)
  case Nil
  then show ?case by simp
next
  case (Cons n ns)
  from Cons.prems obtain el rest where
    h: "f n = Inr el" "build_elements f ns = Inr rest" "els = el # rest"
    by (auto split: sum.splits)
  from Cons.IH [OF h(2)] h(1,3) show ?case
    by (auto simp: nth_Cons split: nat.splits)
qed

lemma elements_JSON_nth:
  assumes "elements_JSON st num_elements = Inr els" and "i < num_elements"
  shows "length els = num_elements \<and> element_JSON st i = Inr (els ! i)"
  using build_elements_Inr [OF assms(1) [unfolded elements_JSON_def]] assms(2) by auto



text \<open>
  The builder of src/TempoNest_JSON.py has no mode choice: for EFAC it runs the
  catalogue loop and emits both catalogue entries, each with prior log_uniform.
\<close>

lemma element_root_EFAC_emits_both_entries:
  assumes "selectbox st (''element_name_'' @ str_nat i) element_types_root = ''EFAC''"
  shows "\<exists>p q. element_root st i = Inr \<lparr>element_name = ''EFAC'', parameters = [p, q]\<rparr>
     \<and> name p = ''global'' \<and> prior_type p = ''log_uniform''
     \<and> name q = ''per_flag'' \<and> prior_type q = ''log_uniform''"
  using assms
  by (simp add: element_root_def catalogue_parameters_def catalogue_parameter_def
      RECOMMENDED_VALUES_def Let_def)

text \<open>
  C8. An element whose selected name is "Timing Model" is emitted with an empty
  parameter list, by the builder of src/JSON/TempoNest_JSON.py and by the builder of
  src/TempoNest_JSON.py.
\<close>

theorem timing_model_has_no_parameters:
  shows "(selectbox st (''element_name_'' @ str_nat i) element_types_JSON = ''Timing Model'' \<longrightarrow>
            element_JSON st i = Inr \<lparr>element_name = ''Timing Model'', parameters = []\<rparr>)
       \<and> (selectbox st (''element_name_'' @ str_nat i) element_types_root = ''Timing Model'' \<longrightarrow>
            element_root st i = Inr \<lparr>element_name = ''Timing Model'', parameters = []\<rparr>)"
  by (simp add: element_JSON_def parameters_JSON_def element_root_def catalogue_parameters_def
      RECOMMENDED_VALUES_def)

theorem timing_model_has_no_parameters_witness:
  "selectbox (empty_form\<lparr>choices := [''element_name_0'' \<mapsto> ''Timing Model'']\<rparr>)
       (''element_name_'' @ str_nat 0) element_types_JSON = ''Timing Model''
   \<and> element_JSON (empty_form\<lparr>choices := [''element_name_0'' \<mapsto> ''Timing Model'']\<rparr>) 0
       = Inr \<lparr>element_name = ''Timing Model'', parameters = []\<rparr>
   \<and> selectbox (empty_form\<lparr>choices := [''element_name_0'' \<mapsto> ''Timing Model'']\<rparr>)
       (''element_name_'' @ str_nat 0) element_types_root = ''Timing Model''
   \<and> element_root (empty_form\<lparr>choices := [''element_name_0'' \<mapsto> ''Timing Model'']\<rparr>) 0
       = Inr \<lparr>element_name = ''Timing Model'', parameters = []\<rparr>"
proof -
  let ?st = "empty_form\<lparr>choices := [''element_name_0'' \<mapsto> ''Timing Model'']\<rparr>"
  have a: "selectbox ?st (''element_name_'' @ str_nat 0) element_types_JSON = ''Timing Model''"
    by (simp add: selectbox_def empty_form_def element_types_JSON_def str_nat_0)
  have b: "selectbox ?st (''element_name_'' @ str_nat 0) element_types_root = ''Timing Model''"
    by (simp add: selectbox_def empty_form_def element_types_root_def str_nat_0)
  from timing_model_has_no_parameters [of ?st 0] a b show ?thesis by simp
qed

subsection \<open>The export block\<close>

lemma splitext_default_par: "splitext_root ''temponest_sim.par'' = ''temponest_sim''"
  by code_simp

lemma splitext_default_tim: "splitext_root ''temponest_sim.tim'' = ''temponest_sim''"
  by code_simp

lemma export_steps_Some:
  "export_block dir \<lparr>psr_combined = Some psr\<rparr> fig uid par_file_name tim_file_name summary =
     os_remove (''temponest_simulation_'' @ uid @ ''.zip'')
      (os_remove (''simulation_summary_'' @ uid @ ''.txt'')
        (os_remove (''residual_plot_'' @ uid @ ''.png'')
          (os_remove (splitext_root tim_file_name @ ''_'' @ uid @ ''.tim'')
            (os_remove (splitext_root par_file_name @ ''_'' @ uid @ ''.par'')
              (download_button (''temponest_simulation_'' @ uid @ ''.zip'')
                (zip_write (''temponest_simulation_'' @ uid @ ''.zip'')
                   (''simulation_summary_'' @ uid @ ''.txt'')
                  (zip_write (''temponest_simulation_'' @ uid @ ''.zip'')
                     (''residual_plot_'' @ uid @ ''.png'')
                    (zip_write (''temponest_simulation_'' @ uid @ ''.zip'')
                       (splitext_root tim_file_name @ ''_'' @ uid @ ''.tim'')
                      (zip_write (''temponest_simulation_'' @ uid @ ''.zip'')
                         (splitext_root par_file_name @ ''_'' @ uid @ ''.par'')
                        (write_file (''temponest_simulation_'' @ uid @ ''.zip'') (ZipArchive [])
                          (write_file (''simulation_summary_'' @ uid @ ''.txt'') (SummaryText summary)
                            (write_file (splitext_root tim_file_name @ ''_'' @ uid @ ''.tim'') (TimFile psr)
                              (write_file (splitext_root par_file_name @ ''_'' @ uid @ ''.par'') (ParFile psr)
                                (write_file (''residual_plot_'' @ uid @ ''.png'') (PlotImage fig)
                                   \<lparr>files = dir, messages = [], downloads = [], raised = None\<rparr>))))))))))))))"
  by (simp add: export_block_def Let_def)


lemma last_neq: "last xs \<noteq> last ys \<Longrightarrow> xs \<noteq> ys"
  by auto

lemma simulate_residuals_sets_pulsar:
  assumes "simulate_residuals L g avg_sn self cadence_days observing_freqs red_noise_params
             dm_noise_params totaltime efac_value = Inr (self', out)"
  shows "psr_combined self' \<noteq> None"
  using assms by (auto simp: simulate_residuals_def split: sum.splits prod.splits)

lemma run_simulation_button_exports_with_pulsar:
  assumes "simulate_residuals L g avg_sn simulator cadence_days frequencies
             (10 powr red_noise_amplitude_log, red_noise_spectral_index)
             (10 powr dm_noise_amplitude_log, dm_noise_spectral_index) total_time efec_value
           = Inr (simulator', simulated_data)"
  shows "run_simulation_button L g dir simulator uid cadence_days frequencies total_time avg_sn
           efec_value red_noise_amplitude_log red_noise_spectral_index dm_noise_amplitude_log
           dm_noise_spectral_index par_file_name tim_file_name
         = (simulator',
            export_block dir simulator' simulated_data uid par_file_name tim_file_name
              (summary_rows cadence_days frequencies total_time avg_sn efec_value
                 red_noise_amplitude_log red_noise_spectral_index dm_noise_amplitude_log
                 dm_noise_spectral_index))
       \<and> psr_combined simulator' \<noteq> None"
  using assms simulate_residuals_sets_pulsar [OF assms]
  by (simp add: run_simulation_button_def)


text \<open>
  C7, as the code has it. With a pulsar object the export block ends without an
  exception and removes all five files it wrote, the archive included: the working
  directory is what it was before, less any file with one of the five names. The archive
  lives on only as the data of the download button: the parameter file, the
  time-of-arrival file, the plot image and the summary, in this order.
\<close>

theorem export_deletes_artifacts_and_archive:
  fixes psr :: 'p and uid par_file_name tim_file_name :: string
    and dir :: "string \<Rightarrow> 'p artifact option" and fig :: dataframe
    and summary :: "(string \<times> summary_value) list"
  defines "par_path \<equiv> splitext_root par_file_name @ ''_'' @ uid @ ''.par''"
    and "tim_path \<equiv> splitext_root tim_file_name @ ''_'' @ uid @ ''.tim''"
    and "png_path \<equiv> ''residual_plot_'' @ uid @ ''.png''"
    and "txt_path \<equiv> ''simulation_summary_'' @ uid @ ''.txt''"
    and "zip_path \<equiv> ''temponest_simulation_'' @ uid @ ''.zip''"
    and "w \<equiv> export_block dir \<lparr>psr_combined = Some psr\<rparr> fig uid par_file_name tim_file_name summary"
  shows "raised w = None
     \<and> messages w = []
     \<and> downloads w = [(zip_path, ZipArchive [(par_path, ParFile psr), (tim_path, TimFile psr),
                                          (png_path, PlotImage fig), (txt_path, SummaryText summary)])]
     \<and> files w = (\<lambda>path. if path \<in> set [par_path, tim_path, png_path, txt_path, zip_path] then None else dir path)"
proof -
  have l: "last par_path = CHR ''r''" "last tim_path = CHR ''m''" "last png_path = CHR ''g''"
    "last txt_path = CHR ''t''" "last zip_path = CHR ''p''"
    by (simp_all add: par_path_def tim_path_def png_path_def txt_path_def zip_path_def)
  have d: "par_path \<noteq> tim_path" "par_path \<noteq> png_path" "par_path \<noteq> txt_path" "par_path \<noteq> zip_path"
    "tim_path \<noteq> png_path" "tim_path \<noteq> txt_path" "tim_path \<noteq> zip_path" "png_path \<noteq> txt_path" "png_path \<noteq> zip_path" "txt_path \<noteq> zip_path"
    by (rule last_neq, simp add: l)+
  note d' = d d [symmetric]
  have w: "w = os_remove zip_path (os_remove txt_path (os_remove png_path (os_remove tim_path
             (os_remove par_path (download_button zip_path (zip_write zip_path txt_path
             (zip_write zip_path png_path (zip_write zip_path tim_path
             (zip_write zip_path par_path (write_file zip_path (ZipArchive [])
             (write_file txt_path (SummaryText summary) (write_file tim_path (TimFile psr)
             (write_file par_path (ParFile psr) (write_file png_path (PlotImage fig)
               \<lparr>files = dir, messages = [], downloads = [], raised = None\<rparr>))))))))))))))"
    by (simp only: w_def export_steps_Some par_path_def tim_path_def png_path_def txt_path_def
        zip_path_def)
  show ?thesis
    unfolding w
    by (simp add: write_file_def zip_write_def download_button_def os_remove_def d' fun_eq_iff)
qed

theorem export_deletes_artifacts_and_archive_witness:
  "export_block Map.empty \<lparr>psr_combined = Some example_pulsar\<rparr> [] ''ab12''
             ''temponest_sim.par'' ''temponest_sim.tim'' []
   = \<lparr>files = Map.empty,
      messages = [],
      downloads = [(''temponest_simulation_ab12.zip'',
         ZipArchive [(''temponest_sim_ab12.par'', ParFile example_pulsar),
                     (''temponest_sim_ab12.tim'', TimFile example_pulsar),
                     (''residual_plot_ab12.png'', PlotImage []),
                     (''simulation_summary_ab12.txt'', SummaryText [])])],
      raised = None\<rparr>"
proof -
  let ?w = "export_block Map.empty \<lparr>psr_combined = Some example_pulsar\<rparr> [] ''ab12''
             ''temponest_sim.par'' ''temponest_sim.tim'' []"
  from export_deletes_artifacts_and_archive [of Map.empty example_pulsar "[]" "''ab12''" "''temponest_sim.par''" "''temponest_sim.tim''" "[]"]
  have "raised ?w = None" "messages ?w = []"
    "downloads ?w = [(''temponest_simulation_ab12.zip'',
         ZipArchive [(''temponest_sim_ab12.par'', ParFile example_pulsar),
                     (''temponest_sim_ab12.tim'', TimFile example_pulsar),
                     (''residual_plot_ab12.png'', PlotImage []),
                     (''simulation_summary_ab12.txt'', SummaryText [])])]"
    "files ?w = Map.empty"
    by (simp_all add: splitext_default_par splitext_default_tim fun_eq_iff)
  then show ?thesis by (cases ?w) simp
qed

text \<open>
  C7 as the specification words it ("only the archive remains in the working directory")
  fails: after a successful export the archive is not in the working directory.
\<close>

theorem archive_does_not_remain_counterexample:
  "raised (export_block Map.empty \<lparr>psr_combined = Some example_pulsar\<rparr> [] ''ab12''
             ''temponest_sim.par'' ''temponest_sim.tim'' []) = None
   \<and> files (export_block Map.empty \<lparr>psr_combined = Some example_pulsar\<rparr> [] ''ab12''
             ''temponest_sim.par'' ''temponest_sim.tim'' []) ''temponest_simulation_ab12.zip'' = None"
  by (simp add: export_steps_Some splitext_default_par splitext_default_tim
      write_file_def zip_write_def download_button_def os_remove_def)

end
